theory Spec2Isabelle
  imports Main "HOL-Library.AList"
begin

section \<open>JavaScript values\<close>

text \<open>
  The client is TypeScript compiled to JavaScript: at run time every argument and every
  response body is a JavaScript value. Values are modelled as JSON trees extended with
  \<open>undefined\<close>. Numbers are integers (status codes, page numbers, limits); floating point
  is not modelled. An object is an association list in which the first binding of a key is
  the object's property.
\<close>

datatype json =
    JUndefined
  | JNull
  | JBool bool
  | JNum int
  | JStr string
  | JArr "json list"
  | JObj "(string \<times> json) list"

text \<open>Truthiness, as tested by \<open>!x\<close>, \<open>x && y\<close>, \<open>x || y\<close> and \<open>x ? a : b\<close>.\<close>

fun js_truthy :: "json \<Rightarrow> bool" where
  "js_truthy JUndefined = False"
| "js_truthy JNull = False"
| "js_truthy (JBool b) = b"
| "js_truthy (JNum n) = (n \<noteq> 0)"
| "js_truthy (JStr s) = (s \<noteq> [])"
| "js_truthy (JArr xs) = True"
| "js_truthy (JObj kvs) = True"

fun js_nullish :: "json \<Rightarrow> bool" where
  "js_nullish JUndefined = True"
| "js_nullish JNull = True"
| "js_nullish v = False"

definition js_or :: "json \<Rightarrow> json \<Rightarrow> json" where
  "js_or a b = (if js_truthy a then a else b)"

definition js_and :: "json \<Rightarrow> json \<Rightarrow> json" where
  "js_and a b = (if js_truthy a then b else a)"

text \<open>Destructuring default \<open>{ x = d } = options\<close>: the default applies to \<open>undefined\<close> only.\<close>

definition js_default :: "json \<Rightarrow> json \<Rightarrow> json" where
  "js_default v d = (if v = JUndefined then d else v)"

text \<open>
  Property read \<open>v.k\<close> on a value that is neither \<open>undefined\<close> nor \<open>null\<close>. Only data
  properties of response bodies are read (\<open>errors\<close>, \<open>detail\<close>, \<open>title\<close>, \<open>data\<close>,
  \<open>included\<close>, \<open>id\<close>, \<open>attributes\<close>, ...); primitives and arrays have none of them.
\<close>

fun js_member :: "json \<Rightarrow> string \<Rightarrow> json" where
  "js_member (JObj kvs) k = (case map_of kvs k of Some v \<Rightarrow> v | None \<Rightarrow> JUndefined)"
| "js_member v k = JUndefined"

text \<open>Decimal rendering of an integer, as a template literal renders a number.\<close>

definition digit_char :: "nat \<Rightarrow> char" where
  "digit_char d = ''0123456789'' ! (d mod 10)"

fun string_of_nat :: "nat \<Rightarrow> string" where
  "string_of_nat n =
     (if n < 10 then [digit_char n] else string_of_nat (n div 10) @ [digit_char (n mod 10)])"

declare string_of_nat.simps [simp del]

definition string_of_int :: "int \<Rightarrow> string" where
  "string_of_int i = (if i < 0 then CHR ''-'' # string_of_nat (nat (- i)) else string_of_nat (nat i))"

text \<open>\<open>Array.prototype.join\<close> on strings.\<close>

fun join_with :: "string \<Rightarrow> string list \<Rightarrow> string" where
  "join_with sep [] = []"
| "join_with sep [x] = x"
| "join_with sep (x # y # ys) = x @ sep @ join_with sep (y # ys)"

text \<open>
  \<open>String(v)\<close>, as used by template literals. Inside \<open>join\<close> the elements \<open>undefined\<close>
  and \<open>null\<close> become the empty string.
\<close>

fun js_to_string :: "json \<Rightarrow> string" where
  "js_to_string JUndefined = ''undefined''"
| "js_to_string JNull = ''null''"
| "js_to_string (JBool b) = (if b then ''true'' else ''false'')"
| "js_to_string (JNum n) = string_of_int n"
| "js_to_string (JStr s) = s"
| "js_to_string (JArr xs) =
     join_with '','' (map (\<lambda>x. if x = JUndefined \<or> x = JNull then [] else js_to_string x) xs)"
| "js_to_string (JObj kvs) = ''[object Object]''"

definition js_join :: "string \<Rightarrow> json list \<Rightarrow> string" where
  "js_join sep xs =
     join_with sep (map (\<lambda>x. if x = JUndefined \<or> x = JNull then [] else js_to_string x) xs)"

section \<open>Errors\<close>

text \<open>
  The failure handed to the response interceptor: an \<open>AxiosError\<close> (or any other thrown
  value). \<open>response\<close> is present when the server answered, \<open>request\<close> is the request object
  when one was sent (\<open>undefined\<close> otherwise).
\<close>

record axios_response =
  resp_status :: int
  resp_data :: json

record axios_error =
  ax_message :: string
  response :: "axios_response option"
  request :: json

text \<open>An \<open>Error\<close> object created by the client, with the fields it may attach.\<close>

record js_error =
  message :: string
  status :: "int option"
  data :: "json option"

text \<open>
  The reason a call is rejected with: an error created by the client, the transport's own
  error passed on, or the \<open>TypeError\<close> JavaScript raises on a read of a property of
  \<open>undefined\<close>/\<open>null\<close> or a call of something that is not a function.
\<close>

datatype rejection =
    NewError js_error
  | Original axios_error
  | TypeError

definition plain_error :: "string \<Rightarrow> rejection" where
  "plain_error msg = NewError \<lparr>message = msg, status = None, data = None\<rparr>"

text \<open>\<open>v.k\<close> on any value: a read on \<open>undefined\<close> or \<open>null\<close> raises.\<close>

definition js_read :: "json \<Rightarrow> string \<Rightarrow> rejection + json" where
  "js_read v k = (if js_nullish v then Inl TypeError else Inr (js_member v k))"

text \<open>\<open>xs.map(f)\<close> for a callback that may raise: the first raise ends the loop.\<close>

fun map_raise :: "('a \<Rightarrow> rejection + 'b) \<Rightarrow> 'a list \<Rightarrow> rejection + 'b list" where
  "map_raise f [] = Inr []"
| "map_raise f (x # xs) =
     (case f x of
        Inl e \<Rightarrow> Inl e
      | Inr y \<Rightarrow> (case map_raise f xs of Inl e \<Rightarrow> Inl e | Inr ys \<Rightarrow> Inr (y # ys)))"

text \<open>The callback \<open>err => err.detail || err.title\<close>.\<close>

definition detail_or_title :: "json \<Rightarrow> rejection + json" where
  "detail_or_title err =
     (case js_read err ''detail'' of
        Inl e \<Rightarrow> Inl e
      | Inr d \<Rightarrow> if js_truthy d then Inr d else js_read err ''title'')"

text \<open>
  \<open>_handleRequestError\<close>. The result is the reason the request's promise is rejected with;
  a \<open>TypeError\<close> raised while the handler runs rejects it as well.
\<close>

definition handleRequestError :: "axios_error \<Rightarrow> rejection" where
  "handleRequestError error =
     (case response error of
        Some resp \<Rightarrow>
          (let status' = resp_status resp;
               data' = resp_data resp;
               msg = ''GeckoTerminal API Error: '' @ string_of_int status';
               errors = js_and data' (js_member data' ''errors'')
           in if js_truthy errors then
                (case errors of
                   JArr errs \<Rightarrow>
                     (case map_raise detail_or_title errs of
                        Inl e \<Rightarrow> e
                      | Inr parts \<Rightarrow>
                          NewError \<lparr>message = msg @ '' - '' @ js_join '', '' parts,
                                    status = Some status', data = Some data'\<rparr>)
                 | _ \<Rightarrow> TypeError)
              else NewError \<lparr>message = msg, status = Some status', data = Some data'\<rparr>)
      | None \<Rightarrow>
          if js_truthy (request error)
          then NewError \<lparr>message = ''No response received from GeckoTerminal API'',
                         status = None, data = None\<rparr>
          else Original error)"

section \<open>Client configuration and the request dispatcher\<close>

text \<open>\<open>GeckoTerminalOptions\<close>; a header object is an association list of distinct keys.\<close>

record GeckoTerminalOptions =
  opt_baseUrl :: "string option"
  opt_apiVersion :: "string option"
  opt_headers :: "(string \<times> string) list option"

text \<open>The configuration handed to \<open>axios.create\<close>.\<close>

record axios_instance =
  baseURL :: string
  axios_headers :: "(string \<times> string) list"

record GeckoTerminal =
  baseUrl :: string
  apiVersion :: string
  headers :: "(string \<times> string) list"
  axios :: axios_instance

definition GECKOTERMINAL_BASE_URL :: string where
  "GECKOTERMINAL_BASE_URL = ''https://api.geckoterminal.com/api''"

text \<open>\<open>x || d\<close> on an optional string: an absent and an empty string both give \<open>d\<close>.\<close>

definition str_or :: "string option \<Rightarrow> string \<Rightarrow> string" where
  "str_or x d = (case x of None \<Rightarrow> d | Some s \<Rightarrow> if s = [] then d else s)"

text \<open>
  Object spread \<open>{ ...defaults, ...extra }\<close>: each key of \<open>extra\<close> in turn replaces the
  value of an existing key in place or is added at the end; spreading \<open>undefined\<close> adds
  nothing.
\<close>

definition object_spread ::
  "(string \<times> string) list \<Rightarrow> (string \<times> string) list option \<Rightarrow> (string \<times> string) list" where
  "object_spread defaults extra =
     (case extra of
        None \<Rightarrow> defaults
      | Some kvs \<Rightarrow> fold (\<lambda>(k, v) acc. AList.update k v acc) kvs defaults)"

text \<open>
  The constructor. \<open>version\<close> is the \<open>version\<close> field of \<open>package.json\<close>, which is read
  when the module loads.
\<close>

definition new_GeckoTerminal :: "string \<Rightarrow> GeckoTerminalOptions \<Rightarrow> GeckoTerminal" where
  "new_GeckoTerminal version options =
     (let bu = str_or (opt_baseUrl options) GECKOTERMINAL_BASE_URL;
          av = str_or (opt_apiVersion options) ''v2'';
          hs = object_spread
                 [(''Accept'', ''application/json''),
                  (''User-Agent'', ''GeckoTerminal-Node/'' @ version)]
                 (opt_headers options)
      in \<lparr>baseUrl = bu, apiVersion = av, headers = hs,
          axios = \<lparr>baseURL = bu @ ''/'' @ av, axios_headers = hs\<rparr>\<rparr>)"

text \<open>
  An outbound GET request as it leaves the client: the URL, the headers and the query
  entries. Percent-encoding of the query string is the transport's business.
\<close>

record request =
  url :: string
  req_headers :: "(string \<times> string) list"
  params :: "(string \<times> json) list"

text \<open>
  The remote side: what the transport reports for a request, either a 2xx response or a
  failure. A simulated server is a function from requests to outcomes.
\<close>

datatype axios_outcome = Fulfilled axios_response | Failed axios_error

type_synonym transport = "request \<Rightarrow> axios_outcome"

text \<open>
  Modelled from the spec: \<open>axios.get\<close> of the axios library, which is not part of the
  sources. It performs one GET against the instance's base URL followed by the endpoint
  path, with the instance's headers, attaching the query parameters after dropping the
  entries whose value is \<open>undefined\<close>. A failure goes through the response interceptor
  installed by the constructor, which is \<open>_handleRequestError\<close>.
\<close>

definition build_request ::
  "axios_instance \<Rightarrow> string \<Rightarrow> (string \<times> json) list \<Rightarrow> request" where
  "build_request ax endpoint ps =
     \<lparr>url = baseURL ax @ endpoint, req_headers = axios_headers ax,
      params = filter (\<lambda>(k, v). v \<noteq> JUndefined) ps\<rparr>"

definition axios_get ::
  "axios_instance \<Rightarrow> transport \<Rightarrow> string \<Rightarrow> (string \<times> json) list
     \<Rightarrow> request \<times> (rejection + axios_response)" where
  "axios_get ax srv endpoint ps =
     (let req = build_request ax endpoint ps
      in (req, case srv req of
                 Fulfilled resp \<Rightarrow> Inr resp
               | Failed e \<Rightarrow> Inl (handleRequestError e)))"

text \<open>
  Every endpoint method returns the requests it issued, in order, and either the reason it
  was rejected with or its result.
\<close>

type_synonym 'a outcome = "request list \<times> (rejection + 'a)"

text \<open>\<open>_get\<close>: one request; the response body is the result, an error is re-thrown as is.\<close>

definition private_get ::
  "GeckoTerminal \<Rightarrow> transport \<Rightarrow> string \<Rightarrow> (string \<times> json) list \<Rightarrow> json outcome" where
  "private_get this srv endpoint ps =
     (case axios_get (axios this) srv endpoint ps of
        (req, Inl e) \<Rightarrow> ([req], Inl e)
      | (req, Inr resp) \<Rightarrow> ([req], Inr (resp_data resp)))"

section \<open>Parameter helpers\<close>

fun is_array :: "json \<Rightarrow> bool" where
  "is_array (JArr xs) = True"
| "is_array v = False"

fun array_items :: "json \<Rightarrow> json list" where
  "array_items (JArr xs) = xs"
| "array_items v = []"

text \<open>\<open>_buildIncludeParams\<close>.\<close>

definition buildIncludeParams :: "json \<Rightarrow> json" where
  "buildIncludeParams inc =
     (if \<not> js_truthy inc \<or> \<not> is_array inc \<or> length (array_items inc) = 0
      then JUndefined
      else JStr (js_join '','' (array_items inc)))"

text \<open>
  The \<open>options\<close> argument of the endpoint methods. Each method reads the fields its
  parameter type declares (\<open>PaginationParams\<close>, \<open>IncludeParams\<close>, \<open>OhlcvParams\<close>,
  \<open>TradesParams\<close>, \<open>dex\<close>, \<open>network\<close>) and ignores the others. An omitted field is \<open>None\<close>;
  \<open>include\<close> is a run-time value since \<open>_buildIncludeParams\<close> inspects its shape, and is
  \<open>JUndefined\<close> when omitted.
\<close>

record options =
  page :: "int option"
  page_size :: "int option"
  incl :: json
  dex :: "string option"
  opt_network :: "string option"
  timeframe :: "string option"
  aggregate :: "int option"
  before_timestamp :: "int option"
  limit :: "int option"
  currency :: "string option"
  token :: "string option"
  trade_volume_in_usd_greater_than :: "int option"
  cursor :: "string option"

text \<open>The empty object \<open>{}\<close>, the default of every \<open>options\<close> parameter.\<close>

definition no_options :: options where
  "no_options =
     \<lparr>page = None, page_size = None, incl = JUndefined, dex = None, opt_network = None,
      timeframe = None, aggregate = None, before_timestamp = None, limit = None,
      currency = None, token = None, trade_volume_in_usd_greater_than = None,
      cursor = None\<rparr>"

text \<open>
  Destructuring defaults of optional fields (\<open>{ page = 1 } = options\<close>), the JavaScript
  value of an optional field (\<open>undefined\<close> when omitted) and the truthiness of an optional
  string.
\<close>

definition num_default :: "int option \<Rightarrow> int \<Rightarrow> int" where
  "num_default x d = (case x of None \<Rightarrow> d | Some n \<Rightarrow> n)"

definition str_default :: "string option \<Rightarrow> string \<Rightarrow> string" where
  "str_default x d = (case x of None \<Rightarrow> d | Some s \<Rightarrow> s)"

definition num_value :: "int option \<Rightarrow> json" where
  "num_value x = (case x of None \<Rightarrow> JUndefined | Some n \<Rightarrow> JNum n)"

definition str_value :: "string option \<Rightarrow> json" where
  "str_value x = (case x of None \<Rightarrow> JUndefined | Some s \<Rightarrow> JStr s)"

definition str_truthy :: "string option \<Rightarrow> bool" where
  "str_truthy x = (case x of None \<Rightarrow> False | Some s \<Rightarrow> s \<noteq> [])"

text \<open>Sequencing of steps that may raise: the first raise is the result.\<close>

definition bind_r :: "rejection + 'a \<Rightarrow> ('a \<Rightarrow> rejection + 'b) \<Rightarrow> rejection + 'b" where
  "bind_r m f = (case m of Inl e \<Rightarrow> Inl e | Inr v \<Rightarrow> f v)"

section \<open>Endpoint methods\<close>

definition getNetworks :: "GeckoTerminal \<Rightarrow> transport \<Rightarrow> options \<Rightarrow> json outcome" where
  "getNetworks this srv opts =
     (let page' = num_default (page opts) 1;
          page_size' = num_default (page_size opts) 100;
          ps = [(''page'', JNum page'), (''page_size'', JNum page_size')]
      in private_get this srv ''/networks'' ps)"

definition getDexes :: "GeckoTerminal \<Rightarrow> transport \<Rightarrow> json \<Rightarrow> options \<Rightarrow> json outcome" where
  "getDexes this srv network opts =
     (if \<not> js_truthy network then ([], Inl (plain_error ''Network parameter is required''))
      else
        let page' = num_default (page opts) 1;
            page_size' = num_default (page_size opts) 100;
            ps = [(''page'', JNum page'), (''page_size'', JNum page_size')]
        in private_get this srv (''/networks/'' @ js_to_string network @ ''/dexes'') ps)"

definition getPool ::
  "GeckoTerminal \<Rightarrow> transport \<Rightarrow> json \<Rightarrow> json \<Rightarrow> options \<Rightarrow> json outcome" where
  "getPool this srv network poolAddress opts =
     (if \<not> js_truthy network then ([], Inl (plain_error ''Network parameter is required''))
      else if \<not> js_truthy poolAddress
      then ([], Inl (plain_error ''Pool address parameter is required''))
      else
        let include' = js_default (incl opts) (JArr []);
            ps = [(''include'', buildIncludeParams include')]
        in private_get this srv
             (''/networks/'' @ js_to_string network @ ''/pools/'' @ js_to_string poolAddress) ps)"

text \<open>
  \<open>Promise.all\<close>: fulfilled with all values, in input order, when every promise is
  fulfilled; otherwise rejected with the reason of the promise that is rejected first.
  Which one that is depends on the order in which the responses arrive, which the program
  does not control: \<open>order\<close> lists the indices of the promises in the order in which they
  settle (those it leaves out settle afterwards, in input order).
\<close>

fun first_rejection :: "(rejection + 'a) list \<Rightarrow> nat list \<Rightarrow> rejection option" where
  "first_rejection rs [] = None"
| "first_rejection rs (i # js) =
     (if i < length rs
      then (case rs ! i of Inl e \<Rightarrow> Some e | Inr v \<Rightarrow> first_rejection rs js)
      else first_rejection rs js)"

fun fulfilled_values :: "(rejection + 'a) list \<Rightarrow> 'a list" where
  "fulfilled_values [] = []"
| "fulfilled_values (Inr v # rs) = v # fulfilled_values rs"
| "fulfilled_values (Inl e # rs) = fulfilled_values rs"

definition promise_all :: "nat list \<Rightarrow> (rejection + 'a) list \<Rightarrow> rejection + 'a list" where
  "promise_all order rs =
     (case first_rejection rs (order @ [0..<length rs]) of
        Some e \<Rightarrow> Inl e
      | None \<Rightarrow> Inr (fulfilled_values rs))"

text \<open>\<open>results[0]\<close> and the optional read \<open>v?.k\<close>.\<close>

definition first_item :: "json list \<Rightarrow> json" where
  "first_item xs = (case xs of [] \<Rightarrow> JUndefined | x # _ \<Rightarrow> x)"

definition optional_member :: "json \<Rightarrow> string \<Rightarrow> json" where
  "optional_member v k = (if js_nullish v then JUndefined else js_member v k)"

text \<open>
  \<open>getPools\<close>: one \<open>getPool\<close> call per address, all started before any is awaited, so the
  requests of all of them are issued whatever their outcome.
\<close>

definition getPools ::
  "GeckoTerminal \<Rightarrow> transport \<Rightarrow> nat list \<Rightarrow> json \<Rightarrow> json \<Rightarrow> options \<Rightarrow> json outcome" where
  "getPools this srv order network poolAddresses opts =
     (if \<not> js_truthy network then ([], Inl (plain_error ''Network parameter is required''))
      else if \<not> js_truthy poolAddresses \<or> \<not> is_array poolAddresses
              \<or> length (array_items poolAddresses) = 0
      then ([], Inl (plain_error ''Pool addresses parameter is required and must be an array''))
      else
        let include' = js_default (incl opts) (JArr []);
            promises = map (\<lambda>address. getPool this srv network address
                                         (no_options\<lparr>incl := include'\<rparr>))
                           (array_items poolAddresses)
        in (concat (map fst promises),
            bind_r (promise_all order (map snd promises)) (\<lambda>results.
            bind_r (map_raise (\<lambda>result. js_read result ''data'') results) (\<lambda>ds.
              Inr (JObj [(''data'', JArr ds),
                         (''included'',
                          js_or (optional_member (first_item results) ''included'')
                                (JArr []))])))))"

definition getTopPools :: "GeckoTerminal \<Rightarrow> transport \<Rightarrow> json \<Rightarrow> options \<Rightarrow> json outcome" where
  "getTopPools this srv network opts =
     (if \<not> js_truthy network then ([], Inl (plain_error ''Network parameter is required''))
      else
        let include' = js_default (incl opts) (JArr []);
            page' = num_default (page opts) 1;
            page_size' = num_default (page_size opts) 100;
            ps = [(''page'', JNum page'), (''page_size'', JNum page_size'),
                  (''include'', buildIncludeParams include')];
            endpoint =
              (if str_truthy (dex opts)
               then ''/networks/'' @ js_to_string network @ ''/dexes/''
                      @ str_default (dex opts) [] @ ''/pools''
               else ''/networks/'' @ js_to_string network @ ''/pools'')
        in private_get this srv endpoint ps)"

definition getNewPools :: "GeckoTerminal \<Rightarrow> transport \<Rightarrow> options \<Rightarrow> json outcome" where
  "getNewPools this srv opts =
     (let include' = js_default (incl opts) (JArr []);
          page' = num_default (page opts) 1;
          page_size' = num_default (page_size opts) 100;
          ps = [(''page'', JNum page'), (''page_size'', JNum page_size'),
                (''include'', buildIncludeParams include')];
          endpoint =
            (if str_truthy (opt_network opts)
             then ''/networks/'' @ str_default (opt_network opts) [] @ ''/new_pools''
             else ''/networks/new_pools'')
      in private_get this srv endpoint ps)"

definition getTrendingPools :: "GeckoTerminal \<Rightarrow> transport \<Rightarrow> options \<Rightarrow> json outcome" where
  "getTrendingPools this srv opts =
     (let include' = js_default (incl opts) (JArr []);
          page' = num_default (page opts) 1;
          page_size' = num_default (page_size opts) 100;
          ps = [(''page'', JNum page'), (''page_size'', JNum page_size'),
                (''include'', buildIncludeParams include')]
      in private_get this srv ''/networks/trending_pools'' ps)"

definition getTrendingPoolsByNetwork ::
  "GeckoTerminal \<Rightarrow> transport \<Rightarrow> json \<Rightarrow> options \<Rightarrow> json outcome" where
  "getTrendingPoolsByNetwork this srv network opts =
     (if \<not> js_truthy network then ([], Inl (plain_error ''Network parameter is required''))
      else
        let include' = js_default (incl opts) (JArr []);
            page' = num_default (page opts) 1;
            page_size' = num_default (page_size opts) 100;
            ps = [(''page'', JNum page'), (''page_size'', JNum page_size'),
                  (''include'', buildIncludeParams include')]
        in private_get this srv
             (''/networks/'' @ js_to_string network @ ''/trending_pools'') ps)"

definition getPoolInfo :: "GeckoTerminal \<Rightarrow> transport \<Rightarrow> json \<Rightarrow> json \<Rightarrow> json outcome" where
  "getPoolInfo this srv network poolAddress =
     (if \<not> js_truthy network then ([], Inl (plain_error ''Network parameter is required''))
      else if \<not> js_truthy poolAddress
      then ([], Inl (plain_error ''Pool address parameter is required''))
      else
        (case private_get this srv
                (''/networks/'' @ js_to_string network @ ''/pools/''
                   @ js_to_string poolAddress @ ''/info'') [] of
           (reqs, Inl e) \<Rightarrow> (reqs, Inl e)
         | (reqs, Inr resp) \<Rightarrow>
             (reqs,
              bind_r (js_read resp ''data'') (\<lambda>tokens.
                Inr (JObj [(''data'',
                  JObj [(''id'', JStr (js_to_string network @ ''_''
                                         @ js_to_string poolAddress @ ''_info'')),
                        (''type'', JStr ''pool_info''),
                        (''attributes'', JObj [(''tokens'', tokens)])])])))))"

definition getToken ::
  "GeckoTerminal \<Rightarrow> transport \<Rightarrow> json \<Rightarrow> json \<Rightarrow> options \<Rightarrow> json outcome" where
  "getToken this srv network tokenAddress opts =
     (if \<not> js_truthy network then ([], Inl (plain_error ''Network parameter is required''))
      else if \<not> js_truthy tokenAddress
      then ([], Inl (plain_error ''Token address parameter is required''))
      else
        let include' = js_default (incl opts) (JArr []);
            ps = [(''include'', buildIncludeParams include')]
        in private_get this srv
             (''/networks/'' @ js_to_string network @ ''/tokens/'' @ js_to_string tokenAddress) ps)"

text \<open>The price entry \<open>getPrices\<close> builds from one \<open>getToken\<close> result.\<close>

definition token_price :: "json \<Rightarrow> rejection + json" where
  "token_price result =
     bind_r (js_read result ''data'') (\<lambda>tok.
     bind_r (js_read tok ''id'') (\<lambda>tok_id.
     bind_r (js_read tok ''attributes'') (\<lambda>attrs.
     bind_r (js_read attrs ''address'') (\<lambda>address.
     bind_r (js_read attrs ''price_usd'') (\<lambda>price_usd.
     bind_r (js_read attrs ''price_24h_change_percentage'') (\<lambda>change.
       Inr (JObj [(''id'', tok_id),
                  (''type'', JStr ''token_price''),
                  (''attributes'',
                   JObj [(''address'', address),
                         (''price_usd'', js_or price_usd (JStr ''0'')),
                         (''price_24h_change_percentage'',
                          js_or change (JStr ''0''))])])))))))"

definition getPrices ::
  "GeckoTerminal \<Rightarrow> transport \<Rightarrow> nat list \<Rightarrow> json \<Rightarrow> json \<Rightarrow> json outcome" where
  "getPrices this srv order network tokenAddresses =
     (if \<not> js_truthy network then ([], Inl (plain_error ''Network parameter is required''))
      else if \<not> js_truthy tokenAddresses \<or> \<not> is_array tokenAddresses
              \<or> length (array_items tokenAddresses) = 0
      then ([], Inl (plain_error ''Token addresses parameter is required and must be an array''))
      else if length (array_items tokenAddresses) > 30
      then ([], Inl (plain_error ''Maximum of 30 token addresses allowed''))
      else
        let promises = map (\<lambda>address. getToken this srv network address no_options)
                           (array_items tokenAddresses)
        in (concat (map fst promises),
            bind_r (promise_all order (map snd promises)) (\<lambda>results.
            bind_r (map_raise token_price results) (\<lambda>ds.
              Inr (JObj [(''data'', JArr ds)])))))"

subsection \<open>OHLCV\<close>

definition validTimeframes :: "string list" where
  "validTimeframes = [''minute'', ''hour'', ''day'', ''week'', ''month'']"

definition validCurrencies :: "string list" where
  "validCurrencies = [''usd'', ''token'']"

definition timeframeInSeconds :: "(string \<times> int) list" where
  "timeframeInSeconds =
     [(''minute'', 60), (''hour'', 3600), (''day'', 86400), (''week'', 604800),
      (''month'', 2592000)]"

text \<open>
  The pre-flight checks shared by both versions of \<open>getPoolOhlcv\<close>: the rejection they
  end in, if any.
\<close>

definition ohlcv_preflight :: "json \<Rightarrow> json \<Rightarrow> options \<Rightarrow> rejection option" where
  "ohlcv_preflight network poolAddress opts =
     (if \<not> js_truthy network then Some (plain_error ''Network parameter is required'')
      else if \<not> js_truthy poolAddress
      then Some (plain_error ''Pool address parameter is required'')
      else
        let timeframe' = str_default (timeframe opts) ''day'';
            limit' = num_default (limit opts) 100;
            currency' = str_default (currency opts) ''usd''
        in if timeframe' \<notin> set validTimeframes
           then Some (plain_error (''Invalid timeframe: '' @ timeframe'
                        @ ''. Must be one of: '' @ join_with '', '' validTimeframes))
           else if currency' \<notin> set validCurrencies
           then Some (plain_error (''Invalid currency: '' @ currency'
                        @ ''. Must be one of: '' @ join_with '', '' validCurrencies))
           else if limit' > 1000 then Some (plain_error ''Maximum limit is 1000'')
           else None)"

text \<open>
  The mock data points of the TypeScript source. \<open>now\<close> is
  \<open>Math.floor(Date.now() / 1000)\<close>. \<open>parseFloat\<close>, the floating-point products and
  \<open>Math.random\<close> are not modelled: \<open>rnd i s\<close> stands for the fields \<open>open\<close>, \<open>high\<close>,
  \<open>low\<close>, \<open>close\<close> and \<open>volume\<close> that iteration \<open>i\<close> computes from the base price text
  \<open>s\<close>. The timeframe has passed validation when the table is read, so its lookup finds
  an entry.
\<close>

definition mock_point ::
  "int \<Rightarrow> (nat \<Rightarrow> string \<Rightarrow> (string \<times> json) list) \<Rightarrow> int \<Rightarrow> json \<Rightarrow> nat \<Rightarrow> rejection + json" where
  "mock_point now rnd interval pool i =
     bind_r (js_read pool ''data'') (\<lambda>d.
     bind_r (js_read d ''attributes'') (\<lambda>attrs.
     bind_r (js_read attrs ''base_token_price_usd'') (\<lambda>price.
       Inr (JObj ((''timestamp'', JNum (now - int i * interval))
                  # rnd i (js_to_string (js_or price (JStr ''0''))))))))"

text \<open>\<open>getPoolOhlcv\<close> of the TypeScript source.\<close>

definition getPoolOhlcv ::
  "GeckoTerminal \<Rightarrow> transport \<Rightarrow> int \<Rightarrow> (nat \<Rightarrow> string \<Rightarrow> (string \<times> json) list)
     \<Rightarrow> json \<Rightarrow> json \<Rightarrow> options \<Rightarrow> json outcome" where
  "getPoolOhlcv this srv now rnd network poolAddress opts =
     (case ohlcv_preflight network poolAddress opts of
        Some e \<Rightarrow> ([], Inl e)
      | None \<Rightarrow>
          (let timeframe' = str_default (timeframe opts) ''day'';
               aggregate' = num_default (aggregate opts) 1;
               limit' = num_default (limit opts) 100
           in case getPool this srv network poolAddress no_options of
                (reqs, Inl e) \<Rightarrow> (reqs, Inl e)
              | (reqs, Inr pool) \<Rightarrow>
                  (let interval =
                         (case map_of timeframeInSeconds timeframe' of
                            Some secs \<Rightarrow> secs | None \<Rightarrow> 0)
                         * (if aggregate' = 0 then 1 else aggregate');
                       n = (if limit' = 0 then 100 else limit')
                   in (reqs,
                       bind_r (map_raise (mock_point now rnd interval pool) [0..<nat n])
                         (\<lambda>mockData. Inr (JObj [(''data'', JArr mockData)]))))))"

text \<open>\<open>getPoolOhlcv\<close> of the compiled build shipped next to the source.\<close>

definition getPoolOhlcv_dist ::
  "GeckoTerminal \<Rightarrow> transport \<Rightarrow> json \<Rightarrow> json \<Rightarrow> options \<Rightarrow> json outcome" where
  "getPoolOhlcv_dist this srv network poolAddress opts =
     (case ohlcv_preflight network poolAddress opts of
        Some e \<Rightarrow> ([], Inl e)
      | None \<Rightarrow>
          (let timeframe' = str_default (timeframe opts) ''day'';
               aggregate' = num_default (aggregate opts) 1;
               limit' = num_default (limit opts) 100;
               currency' = str_default (currency opts) ''usd'';
               token' = str_default (token opts) ''base'';
               ps = [(''timeframe'', JStr timeframe'),
                     (''aggregate'', JNum aggregate'),
                     (''before_timestamp'', num_value (before_timestamp opts)),
                     (''limit'', JNum limit'),
                     (''currency'', JStr currency'),
                     (''token'', JStr token')]
           in private_get this srv
                (''/networks/'' @ js_to_string network @ ''/pools/''
                   @ js_to_string poolAddress @ ''/ohlcv'') ps))"

subsection \<open>Trades and search\<close>

definition getTrades ::
  "GeckoTerminal \<Rightarrow> transport \<Rightarrow> json \<Rightarrow> json \<Rightarrow> options \<Rightarrow> json outcome" where
  "getTrades this srv network poolAddress opts =
     (if \<not> js_truthy network then ([], Inl (plain_error ''Network parameter is required''))
      else if \<not> js_truthy poolAddress
      then ([], Inl (plain_error ''Pool address parameter is required''))
      else
        let ps = [(''trade_volume_in_usd_greater_than'',
                   num_value (trade_volume_in_usd_greater_than opts)),
                  (''cursor'', str_value (cursor opts))]
        in private_get this srv
             (''/networks/'' @ js_to_string network @ ''/pools/''
                @ js_to_string poolAddress @ ''/trades'') ps)"

definition searchPools :: "GeckoTerminal \<Rightarrow> transport \<Rightarrow> json \<Rightarrow> options \<Rightarrow> json outcome" where
  "searchPools this srv query opts =
     (if \<not> js_truthy query then ([], Inl (plain_error ''Search query parameter is required''))
      else
        let include' = js_default (incl opts) (JArr []);
            page' = num_default (page opts) 1;
            page_size' = num_default (page_size opts) 100;
            ps = [(''query'', query), (''page'', JNum page'), (''page_size'', JNum page_size'),
                  (''include'', buildIncludeParams include')];
            endpoint =
              (if str_truthy (opt_network opts)
               then ''/networks/'' @ str_default (opt_network opts) [] @ ''/search/pools''
               else ''/search/pools'')
        in private_get this srv endpoint ps)"

subsection \<open>All endpoint calls\<close>

text \<open>
  What lies outside the program: the simulated server, the order in which concurrent
  responses settle, the clock and the random source.
\<close>

record world =
  server :: transport
  settle_order :: "nat list"
  clock :: int
  random_fields :: "nat \<Rightarrow> string \<Rightarrow> (string \<times> json) list"

text \<open>A call of one public method of the TypeScript class, with its arguments.\<close>

datatype call =
    GetNetworks options
  | GetDexes json options
  | GetPool json json options
  | GetPools json json options
  | GetTopPools json options
  | GetNewPools options
  | GetTrendingPools options
  | GetTrendingPoolsByNetwork json options
  | GetPoolInfo json json
  | GetToken json json options
  | GetPrices json json
  | GetPoolOhlcv json json options
  | GetTrades json json options
  | SearchPools json options

fun invoke :: "GeckoTerminal \<Rightarrow> world \<Rightarrow> call \<Rightarrow> json outcome" where
  "invoke this w (GetNetworks opts) = getNetworks this (server w) opts"
| "invoke this w (GetDexes network opts) = getDexes this (server w) network opts"
| "invoke this w (GetPool network a opts) = getPool this (server w) network a opts"
| "invoke this w (GetPools network as opts) =
     getPools this (server w) (settle_order w) network as opts"
| "invoke this w (GetTopPools network opts) = getTopPools this (server w) network opts"
| "invoke this w (GetNewPools opts) = getNewPools this (server w) opts"
| "invoke this w (GetTrendingPools opts) = getTrendingPools this (server w) opts"
| "invoke this w (GetTrendingPoolsByNetwork network opts) =
     getTrendingPoolsByNetwork this (server w) network opts"
| "invoke this w (GetPoolInfo network a) = getPoolInfo this (server w) network a"
| "invoke this w (GetToken network a opts) = getToken this (server w) network a opts"
| "invoke this w (GetPrices network as) =
     getPrices this (server w) (settle_order w) network as"
| "invoke this w (GetPoolOhlcv network a opts) =
     getPoolOhlcv this (server w) (clock w) (random_fields w) network a opts"
| "invoke this w (GetTrades network a opts) = getTrades this (server w) network a opts"
| "invoke this w (SearchPools q opts) = searchPools this (server w) q opts"

section \<open>Simulated clients and servers\<close>

text \<open>
  A client built with no options, and a server given by a table from URLs to outcomes
  with a fallback outcome for every other URL. They are the concrete inputs of the
  examples.
\<close>

definition example_client :: GeckoTerminal where
  "example_client =
     new_GeckoTerminal ''1.0.0''
       \<lparr>opt_baseUrl = None, opt_apiVersion = None, opt_headers = None\<rparr>"

definition simulated_server :: "(string \<times> axios_outcome) list \<Rightarrow> axios_outcome \<Rightarrow> transport" where
  "simulated_server routes fallback req =
     (case map_of routes (url req) of Some out \<Rightarrow> out | None \<Rightarrow> fallback)"

definition example_world :: "transport \<Rightarrow> world" where
  "example_world srv =
     \<lparr>server = srv, settle_order = [], clock = 1700000000, random_fields = (\<lambda>i s. [])\<rparr>"

definition ok :: "json \<Rightarrow> axios_outcome" where
  "ok body = Fulfilled \<lparr>resp_status = 200, resp_data = body\<rparr>"

definition not_found :: axios_outcome where
  "not_found =
     Failed \<lparr>ax_message = ''Request failed with status code 404'',
             response = Some \<lparr>resp_status = 404,
               resp_data = JObj [(''errors'', JArr [JObj [(''detail'', JStr ''not found'')]])]\<rparr>,
             request = JObj []\<rparr>"

section \<open>The error normalizer\<close>

text \<open>The definitions unfolded to run the client on a concrete input.\<close>

lemmas eval_defs = example_client_def new_GeckoTerminal_def str_or_def object_spread_def
  GECKOTERMINAL_BASE_URL_def simulated_server_def ok_def not_found_def
  private_get_def axios_get_def build_request_def buildIncludeParams_def js_default_def
  no_options_def num_default_def str_default_def num_value_def str_value_def str_truthy_def
  plain_error_def js_read_def js_or_def js_and_def js_join_def Let_def
  first_item_def optional_member_def promise_all_def bind_r_def
  handleRequestError_def detail_or_title_def string_of_int_def string_of_nat.simps
  digit_char_def


lemma map_raise_detail_or_title:
  "\<forall>e \<in> set errs. \<not> js_nullish e \<Longrightarrow>
     map_raise detail_or_title errs =
       Inr (map (\<lambda>e. js_or (js_member e ''detail'') (js_member e ''title'')) errs)"
  by (induction errs) (simp_all add: detail_or_title_def js_read_def js_or_def)


text \<open>
  On the error envelope the remote API documents, the handler produces the messages of the
  specification. When the server responded, it rejects with one error that carries the
  status and the body, and whose message is \<open>GeckoTerminal API Error: {status}\<close> when the
  body is falsy or its \<open>errors\<close> member is absent or falsy, and
  \<open>GeckoTerminal API Error: {status} - {details}\<close> when the \<open>errors\<close> member is an array
  without \<open>null\<close>/\<open>undefined\<close> entries, where the details are each entry's \<open>detail\<close>, or
  its \<open>title\<close> when the detail is falsy, joined with a comma and a space.
\<close>

theorem handleRequestError_server_status:
  assumes "response error = Some resp"
  shows "(\<not> js_truthy (resp_data resp) \<or> \<not> js_truthy (js_member (resp_data resp) ''errors'') \<longrightarrow>
            handleRequestError error =
              NewError \<lparr>message = ''GeckoTerminal API Error: '' @ string_of_int (resp_status resp),
                        status = Some (resp_status resp), data = Some (resp_data resp)\<rparr>)
       \<and> (\<forall>errs. js_member (resp_data resp) ''errors'' = JArr errs
                   \<and> (\<forall>e \<in> set errs. \<not> js_nullish e) \<longrightarrow>
            handleRequestError error =
              NewError \<lparr>message = ''GeckoTerminal API Error: '' @ string_of_int (resp_status resp)
                          @ '' - ''
                          @ js_join '', ''
                              (map (\<lambda>e. js_or (js_member e ''detail'') (js_member e ''title'')) errs),
                        status = Some (resp_status resp), data = Some (resp_data resp)\<rparr>)"
proof (intro conjI allI impI)
  assume "\<not> js_truthy (resp_data resp) \<or> \<not> js_truthy (js_member (resp_data resp) ''errors'')"
  then have "\<not> js_truthy (js_and (resp_data resp) (js_member (resp_data resp) ''errors''))"
    by (auto simp: js_and_def)
  then show "handleRequestError error =
              NewError \<lparr>message = ''GeckoTerminal API Error: '' @ string_of_int (resp_status resp),
                        status = Some (resp_status resp), data = Some (resp_data resp)\<rparr>"
    using assms by (simp add: handleRequestError_def Let_def)
next
  fix errs
  assume h: "js_member (resp_data resp) ''errors'' = JArr errs \<and> (\<forall>e \<in> set errs. \<not> js_nullish e)"
  then have "js_truthy (resp_data resp)"
    by (cases "resp_data resp") simp_all
  then have "js_and (resp_data resp) (js_member (resp_data resp) ''errors'') = JArr errs"
    using h by (simp add: js_and_def)
  then show "handleRequestError error =
              NewError \<lparr>message = ''GeckoTerminal API Error: '' @ string_of_int (resp_status resp)
                          @ '' - ''
                          @ js_join '', ''
                              (map (\<lambda>e. js_or (js_member e ''detail'') (js_member e ''title'')) errs),
                        status = Some (resp_status resp), data = Some (resp_data resp)\<rparr>"
    using assms h by (simp add: handleRequestError_def Let_def map_raise_detail_or_title)
qed

text \<open>
  The theorem at the specification's example, status 404 with body
  \<open>{errors: [{detail: "not found"}]}\<close>, and at a 503 whose body is plain text.
\<close>

theorem handleRequestError_server_status_witness:
  "handleRequestError
     \<lparr>ax_message = ''Request failed with status code 404'',
      response = Some \<lparr>resp_status = 404,
                       resp_data = JObj [(''errors'', JArr [JObj [(''detail'', JStr ''not found'')]])]\<rparr>,
      request = JObj []\<rparr>
     = NewError \<lparr>message = ''GeckoTerminal API Error: 404 - not found'', status = Some 404,
                 data = Some (JObj [(''errors'', JArr [JObj [(''detail'', JStr ''not found'')]])])\<rparr>
   \<and> handleRequestError
       \<lparr>ax_message = ''Request failed with status code 503'',
        response = Some \<lparr>resp_status = 503, resp_data = JStr ''Service Unavailable''\<rparr>,
        request = JObj []\<rparr>
     = NewError \<lparr>message = ''GeckoTerminal API Error: 503'', status = Some 503,
                 data = Some (JStr ''Service Unavailable'')\<rparr>"
  using handleRequestError_server_status
          [of "\<lparr>ax_message = ''Request failed with status code 404'',
                response = Some \<lparr>resp_status = 404,
                  resp_data = JObj [(''errors'', JArr [JObj [(''detail'', JStr ''not found'')]])]\<rparr>,
                request = JObj []\<rparr>"
              "\<lparr>resp_status = 404,
                resp_data = JObj [(''errors'', JArr [JObj [(''detail'', JStr ''not found'')]])]\<rparr>"]
        handleRequestError_server_status
          [of "\<lparr>ax_message = ''Request failed with status code 503'',
                response = Some \<lparr>resp_status = 503, resp_data = JStr ''Service Unavailable''\<rparr>,
                request = JObj []\<rparr>"
              "\<lparr>resp_status = 503, resp_data = JStr ''Service Unavailable''\<rparr>"]
  by (simp add: js_join_def js_or_def string_of_int_def string_of_nat.simps digit_char_def)

text \<open>
  Claim C2 does not hold of the code for every body. The body \<open>{errors: "down"}\<close> of a 500
  response has no list of error objects, so the error with message
  \<open>GeckoTerminal API Error: 500\<close>, status 500 and the body is due; but the guard of the
  handler tests the \<open>errors\<close> member for truthiness only, \<open>.map\<close> is called on a string,
  and the call is rejected with a \<open>TypeError\<close> that carries neither status nor body.
\<close>

theorem handleRequestError_errors_not_array_raises:
  "handleRequestError
     \<lparr>ax_message = ''Request failed with status code 500'',
      response = Some \<lparr>resp_status = 500, resp_data = JObj [(''errors'', JStr ''down'')]\<rparr>,
      request = JObj []\<rparr> = TypeError
   \<and> handleRequestError
       \<lparr>ax_message = ''Request failed with status code 500'',
        response = Some \<lparr>resp_status = 500, resp_data = JObj [(''errors'', JStr ''down'')]\<rparr>,
        request = JObj []\<rparr>
     \<noteq> NewError \<lparr>message = ''GeckoTerminal API Error: 500'', status = Some 500,
                 data = Some (JObj [(''errors'', JStr ''down'')])\<rparr>"
  by (simp add: handleRequestError_def js_and_def)



section \<open>The requests a call issues\<close>

lemma private_get_requests:
  "fst (private_get this srv endpoint ps) = [build_request (axios this) endpoint ps]"
  by (simp add: private_get_def axios_get_def Let_def split: axios_outcome.splits)

lemma private_get_result:
  "snd (private_get this srv endpoint ps) =
     (case srv (build_request (axios this) endpoint ps) of
        Fulfilled resp \<Rightarrow> Inr (resp_data resp)
      | Failed e \<Rightarrow> Inl (handleRequestError e))"
  by (simp add: private_get_def axios_get_def Let_def split: axios_outcome.splits)



lemma getPool_requests:
  "fst (getPool this srv network a opts) =
     (if js_truthy network \<and> js_truthy a
      then [build_request (axios this)
              (''/networks/'' @ js_to_string network @ ''/pools/'' @ js_to_string a)
              [(''include'', buildIncludeParams (js_default (incl opts) (JArr [])))]]
      else [])"
  by (simp add: getPool_def Let_def private_get_requests)




lemma getPoolOhlcv_requests:
  "fst (getPoolOhlcv this srv now rnd network a opts) =
     (if ohlcv_preflight network a opts = None
      then fst (getPool this srv network a no_options) else [])"
  by (auto simp: getPoolOhlcv_def Let_def split: option.splits prod.splits sum.splits)


section \<open>Parameters\<close>











text \<open>
  Claim C5. For the seven paginated methods, when the caller omits \<open>page\<close> and
  \<open>page_size\<close>, every request issued carries \<open>page = 1\<close> and \<open>page_size = 100\<close>; and one
  request is issued when the required network or query argument is given.
\<close>

theorem pagination_defaults:
  assumes "c \<in> {GetNetworks opts, GetDexes network opts, GetTopPools network opts,
                 GetNewPools opts, GetTrendingPools opts,
                 GetTrendingPoolsByNetwork network opts, SearchPools query opts}"
      and "page opts = None" and "page_size opts = None"
  shows "(\<forall>r \<in> set (fst (invoke this w c)).
            map_of (params r) ''page'' = Some (JNum 1)
          \<and> map_of (params r) ''page_size'' = Some (JNum 100))
       \<and> (js_truthy network \<and> js_truthy query \<longrightarrow> length (fst (invoke this w c)) = 1)"
  using assms
  by (auto simp: getNetworks_def getDexes_def getTopPools_def getNewPools_def
        getTrendingPools_def getTrendingPoolsByNetwork_def searchPools_def Let_def
        private_get_requests build_request_def num_default_def split: if_splits)

text \<open>The theorem at \<open>getNetworks()\<close> and \<open>getTopPools('eth')\<close>.\<close>

theorem pagination_defaults_witness:
  "map params (fst (invoke example_client (example_world (simulated_server [] (ok (JObj []))))
      (GetNetworks no_options)))
     = [[(''page'', JNum 1), (''page_size'', JNum 100)]]
   \<and> map params (fst (invoke example_client (example_world (simulated_server [] (ok (JObj []))))
      (GetTopPools (JStr ''eth'') no_options)))
     = [[(''page'', JNum 1), (''page_size'', JNum 100)]]"
  using pagination_defaults
          [of "GetNetworks no_options" no_options "JStr ''eth''" "JStr ''ETH''"
              example_client "example_world (simulated_server [] (ok (JObj [])))"]
        pagination_defaults
          [of "GetTopPools (JStr ''eth'') no_options" no_options "JStr ''eth''" "JStr ''ETH''"
              example_client "example_world (simulated_server [] (ok (JObj [])))"]
  by (simp add: getNetworks_def getTopPools_def example_world_def eval_defs)

text \<open>
  Claim C6. When the token-address argument of \<open>getPrices\<close> is missing, not an array,
  empty or longer than 30, the call is rejected with a plain error (no status, no body)
  and no request is issued; for more than 30 addresses on a given network the error is
  \<open>Maximum of 30 token addresses allowed\<close>.
\<close>

theorem getPrices_preflight_validation:
  assumes "tokenAddresses = JUndefined \<or> \<not> is_array tokenAddresses
           \<or> array_items tokenAddresses = [] \<or> length (array_items tokenAddresses) > 30"
  shows "fst (getPrices this srv order network tokenAddresses) = []
       \<and> (\<exists>msg. snd (getPrices this srv order network tokenAddresses)
                   = Inl (NewError \<lparr>message = msg, status = None, data = None\<rparr>))
       \<and> (js_truthy network \<and> length (array_items tokenAddresses) > 30 \<longrightarrow>
            snd (getPrices this srv order network tokenAddresses)
              = Inl (plain_error ''Maximum of 30 token addresses allowed''))"
  using assms by (cases tokenAddresses) (auto simp: getPrices_def plain_error_def)

text \<open>The theorem at 31 addresses.\<close>

theorem getPrices_preflight_validation_witness:
  "fst (getPrices (new_GeckoTerminal ''1.0.0'' \<lparr>opt_baseUrl = None, opt_apiVersion = None, opt_headers = None\<rparr>)
         (\<lambda>req. Fulfilled \<lparr>resp_status = 200, resp_data = JObj []\<rparr>) [] (JStr ''eth'')
         (JArr (replicate 31 (JStr ''0xdac17f958d2ee523a2206206994597c13d831ec7'')))) = []
   \<and> snd (getPrices (new_GeckoTerminal ''1.0.0'' \<lparr>opt_baseUrl = None, opt_apiVersion = None, opt_headers = None\<rparr>)
         (\<lambda>req. Fulfilled \<lparr>resp_status = 200, resp_data = JObj []\<rparr>) [] (JStr ''eth'')
         (JArr (replicate 31 (JStr ''0xdac17f958d2ee523a2206206994597c13d831ec7''))))
       = Inl (NewError \<lparr>message = ''Maximum of 30 token addresses allowed'', status = None, data = None\<rparr>)"
  using getPrices_preflight_validation
     [of "JArr (replicate 31 (JStr ''0xdac17f958d2ee523a2206206994597c13d831ec7''))"
         "new_GeckoTerminal ''1.0.0'' \<lparr>opt_baseUrl = None, opt_apiVersion = None, opt_headers = None\<rparr>"
         "\<lambda>req. Fulfilled \<lparr>resp_status = 200, resp_data = JObj []\<rparr>" "[]" "JStr ''eth''"]
  by (simp add: plain_error_def)


section \<open>Fan-out\<close>


lemma first_rejection_None:
  "first_rejection rs js = None \<Longrightarrow> i \<in> set js \<Longrightarrow> i < length rs \<Longrightarrow> \<exists>v. rs ! i = Inr v"
  by (induction js) (auto split: if_splits sum.splits)

lemma fulfilled_values_all:
  "\<forall>r \<in> set rs. \<exists>v. r = Inr v \<Longrightarrow> map Inr (fulfilled_values rs) = rs"
  by (induction rs rule: fulfilled_values.induct) auto





lemma bind_r_simps [simp]:
  "bind_r (Inl e) f = Inl e" "bind_r (Inr v) f = f v"
  by (simp_all add: bind_r_def)

lemma getPools_unfold:
  assumes "js_truthy network" and "addrs \<noteq> []"
  shows "getPools this srv order network (JArr addrs) opts =
    (concat (map (\<lambda>a. fst (getPool this srv network a
                              (no_options\<lparr>incl := js_default (incl opts) (JArr [])\<rparr>))) addrs),
     bind_r (promise_all order
               (map (\<lambda>a. snd (getPool this srv network a
                                 (no_options\<lparr>incl := js_default (incl opts) (JArr [])\<rparr>))) addrs))
       (\<lambda>results.
          bind_r (map_raise (\<lambda>result. js_read result ''data'') results) (\<lambda>ds.
            Inr (JObj [(''data'', JArr ds),
                       (''included'',
                        js_or (optional_member (first_item results) ''included'') (JArr []))]))))"
  using assms by (simp add: getPools_def Let_def comp_def)















lemma promise_all_Inr:
  assumes "promise_all order rs = Inr vs"
  shows "rs = map Inr vs"
proof -
  have none: "first_rejection rs (order @ [0..<length rs]) = None" and vs: "vs = fulfilled_values rs"
    using assms by (auto simp: promise_all_def split: option.splits)
  have "\<forall>r \<in> set rs. \<exists>v. r = Inr v"
  proof
    fix r assume "r \<in> set rs"
    then obtain i where "i < length rs" "rs ! i = r" by (auto simp: in_set_conv_nth)
    then show "\<exists>v. r = Inr v"
      using first_rejection_None [OF none, of i] by auto
  qed
  then show ?thesis using vs fulfilled_values_all [of rs] by simp
qed

text \<open>
  Claim C10. When \<open>getPools\<close> succeeds, the \<open>included\<close> field of its result is the
  \<open>included\<close> member of the first sub-call's result, or the empty list when that member is
  absent (or falsy); what the other sub-calls returned as \<open>included\<close> does not enter the
  result.
\<close>

theorem getPools_included_from_first:
  assumes "getPools this srv order network poolAddresses opts = (reqs, Inr out)"
  shows "\<exists>a rest first.
           array_items poolAddresses = a # rest
         \<and> snd (getPool this srv network a
                  (no_options\<lparr>incl := js_default (incl opts) (JArr [])\<rparr>)) = Inr first
         \<and> js_member out ''included'' = js_or (js_member first ''included'') (JArr [])
         \<and> (\<forall>kvs v. first = JObj kvs \<and> map_of kvs ''included'' = Some v \<and> js_truthy v
               \<longrightarrow> js_member out ''included'' = v)
         \<and> (\<forall>kvs. first = JObj kvs \<and> map_of kvs ''included'' = None
               \<longrightarrow> js_member out ''included'' = JArr [])"
proof -
  have n: "js_truthy network"
    using assms by (auto simp: getPools_def split: if_splits)
  obtain a rest where addrs: "poolAddresses = JArr (a # rest)"
    using assms n by (cases poolAddresses; cases "array_items poolAddresses")
                     (auto simp: getPools_def split: if_splits)
  note unf = getPools_unfold [OF n, of "a # rest" this srv order opts, simplified]
  obtain results where all: "promise_all order
        (snd (getPool this srv network a (no_options\<lparr>incl := js_default (incl opts) (JArr [])\<rparr>))
         # map (\<lambda>a. snd (getPool this srv network a
                           (no_options\<lparr>incl := js_default (incl opts) (JArr [])\<rparr>))) rest)
        = Inr results"
    using assms unfolding addrs unf by (auto simp: bind_r_def split: sum.splits)
  from promise_all_Inr [OF all] obtain first others where
    results: "results = first # others"
    and first: "snd (getPool this srv network a
                  (no_options\<lparr>incl := js_default (incl opts) (JArr [])\<rparr>)) = Inr first"
    by (cases results) auto
  have inc: "js_member out ''included'' = js_or (js_member first ''included'') (JArr [])"
    using assms unfolding addrs unf all results
    by (auto simp: first_item_def optional_member_def js_read_def bind_r_def
             split: sum.splits if_splits)
  have present: "js_member out ''included'' = v"
    if "first = JObj kvs \<and> map_of kvs ''included'' = Some v \<and> js_truthy v" for kvs v
    using that inc by (simp add: js_or_def)
  have absent: "js_member out ''included'' = JArr []"
    if "first = JObj kvs \<and> map_of kvs ''included'' = None" for kvs
    using that inc by (simp add: js_or_def)
  show ?thesis
  proof (intro exI conjI allI impI)
    show "array_items poolAddresses = a # rest"
      by (simp add: addrs)
    show "snd (getPool this srv network a
                 (no_options\<lparr>incl := js_default (incl opts) (JArr [])\<rparr>)) = Inr first"
      by (rule first)
    show "js_member out ''included'' = js_or (js_member first ''included'') (JArr [])"
      by (rule inc)
    show "js_member out ''included'' = v"
      if "first = JObj kvs \<and> map_of kvs ''included'' = Some v \<and> js_truthy v" for kvs v
      using that by (rule present)
    show "js_member out ''included'' = JArr []"
      if "first = JObj kvs \<and> map_of kvs ''included'' = None" for kvs
      using that by (rule absent)
  qed
qed

text \<open>
  The theorem at two pools whose responses both have an \<open>included\<close> member: the aggregate
  has the first one's entries and not the second one's. And at two pools of which only the
  second one's response has the member: the aggregate's \<open>included\<close> is empty.
\<close>

theorem getPools_included_from_first_witness:
  "snd (getPools example_client
         (simulated_server
            [(''https://api.geckoterminal.com/api/v2/networks/eth/pools/0xA'',
              ok (JObj [(''data'', JObj [(''id'', JStr ''eth_0xA'')]),
                        (''included'', JArr [JObj [(''id'', JStr ''uniswap_v3'')]])]))]
            (ok (JObj [(''data'', JObj [(''id'', JStr ''eth_0xB'')]),
                       (''included'', JArr [JObj [(''id'', JStr ''sushiswap'')]])])))
         [] (JStr ''eth'') (JArr [JStr ''0xA'', JStr ''0xB''])
         (no_options\<lparr>incl := JArr [JStr ''dex'']\<rparr>))
     = Inr (JObj [(''data'', JArr [JObj [(''id'', JStr ''eth_0xA'')],
                                   JObj [(''id'', JStr ''eth_0xB'')]]),
                  (''included'', JArr [JObj [(''id'', JStr ''uniswap_v3'')]])])
   \<and> js_member (JObj [(''data'', JArr [JObj [(''id'', JStr ''eth_0xA'')],
                                   JObj [(''id'', JStr ''eth_0xB'')]]),
                  (''included'', JArr [JObj [(''id'', JStr ''uniswap_v3'')]])]) ''included'' = JArr [JObj [(''id'', JStr ''uniswap_v3'')]]
   \<and> snd (getPools example_client
         (simulated_server
            [(''https://api.geckoterminal.com/api/v2/networks/eth/pools/0xA'',
              ok (JObj [(''data'', JObj [(''id'', JStr ''eth_0xA'')])]))]
            (ok (JObj [(''data'', JObj [(''id'', JStr ''eth_0xB'')]),
                       (''included'', JArr [JObj [(''id'', JStr ''sushiswap'')]])])))
         [] (JStr ''eth'') (JArr [JStr ''0xA'', JStr ''0xB''])
         (no_options\<lparr>incl := JArr [JStr ''dex'']\<rparr>))
     = Inr (JObj [(''data'', JArr [JObj [(''id'', JStr ''eth_0xA'')],
                                   JObj [(''id'', JStr ''eth_0xB'')]]),
                  (''included'', JArr [])])
   \<and> js_member (JObj [(''data'', JArr [JObj [(''id'', JStr ''eth_0xA'')],
                                   JObj [(''id'', JStr ''eth_0xB'')]]),
                  (''included'', JArr [])]) ''included'' = JArr []"
proof -
  have runA: "getPools example_client
         (simulated_server
            [(''https://api.geckoterminal.com/api/v2/networks/eth/pools/0xA'',
              ok (JObj [(''data'', JObj [(''id'', JStr ''eth_0xA'')]),
                        (''included'', JArr [JObj [(''id'', JStr ''uniswap_v3'')]])]))]
            (ok (JObj [(''data'', JObj [(''id'', JStr ''eth_0xB'')]),
                       (''included'', JArr [JObj [(''id'', JStr ''sushiswap'')]])])))
         [] (JStr ''eth'') (JArr [JStr ''0xA'', JStr ''0xB''])
         (no_options\<lparr>incl := JArr [JStr ''dex'']\<rparr>)
     = ([\<lparr>url = ''https://api.geckoterminal.com/api/v2/networks/eth/pools/0xA'',
          req_headers = [(''Accept'', ''application/json''),
                         (''User-Agent'', ''GeckoTerminal-Node/1.0.0'')],
          params = [(''include'', JStr ''dex'')]\<rparr>,
         \<lparr>url = ''https://api.geckoterminal.com/api/v2/networks/eth/pools/0xB'',
          req_headers = [(''Accept'', ''application/json''),
                         (''User-Agent'', ''GeckoTerminal-Node/1.0.0'')],
          params = [(''include'', JStr ''dex'')]\<rparr>],
        Inr (JObj [(''data'', JArr [JObj [(''id'', JStr ''eth_0xA'')],
                                   JObj [(''id'', JStr ''eth_0xB'')]]),
                  (''included'', JArr [JObj [(''id'', JStr ''uniswap_v3'')]])]))"
    by (simp add: getPools_def getPool_def eval_defs)
  have runB: "getPools example_client
         (simulated_server
            [(''https://api.geckoterminal.com/api/v2/networks/eth/pools/0xA'',
              ok (JObj [(''data'', JObj [(''id'', JStr ''eth_0xA'')])]))]
            (ok (JObj [(''data'', JObj [(''id'', JStr ''eth_0xB'')]),
                       (''included'', JArr [JObj [(''id'', JStr ''sushiswap'')]])])))
         [] (JStr ''eth'') (JArr [JStr ''0xA'', JStr ''0xB''])
         (no_options\<lparr>incl := JArr [JStr ''dex'']\<rparr>)
     = ([\<lparr>url = ''https://api.geckoterminal.com/api/v2/networks/eth/pools/0xA'',
          req_headers = [(''Accept'', ''application/json''),
                         (''User-Agent'', ''GeckoTerminal-Node/1.0.0'')],
          params = [(''include'', JStr ''dex'')]\<rparr>,
         \<lparr>url = ''https://api.geckoterminal.com/api/v2/networks/eth/pools/0xB'',
          req_headers = [(''Accept'', ''application/json''),
                         (''User-Agent'', ''GeckoTerminal-Node/1.0.0'')],
          params = [(''include'', JStr ''dex'')]\<rparr>],
        Inr (JObj [(''data'', JArr [JObj [(''id'', JStr ''eth_0xA'')],
                                   JObj [(''id'', JStr ''eth_0xB'')]]),
                  (''included'', JArr [])]))"
    by (simp add: getPools_def getPool_def eval_defs)
  show ?thesis
    using getPools_included_from_first [OF runA] getPools_included_from_first [OF runB]
    by (simp add: runA runB)
qed

section \<open>Client configuration\<close>






section \<open>OHLCV\<close>

text \<open>
  Claim C7, as amended. Whenever the timeframe is outside
  \<open>{minute, hour, day, week, month}\<close>, the currency is outside \<open>{usd, token}\<close> or the limit
  exceeds 1000, \<open>getPoolOhlcv\<close> is rejected with a plain error before any request is
  issued. The checks run in the order network, pool address, timeframe, currency, limit
  and the first that fails gives the message: when the network and the pool address are
  given it names the invalid timeframe or currency and the allowed set, or the bound
  1000. When all values are valid, one request is issued (in the TypeScript source, the
  pool fetch).
\<close>

theorem getPoolOhlcv_validation:
  assumes "str_default (timeframe opts) ''day'' = tf"
      and "str_default (currency opts) ''usd'' = cur"
      and "num_default (limit opts) 100 = lim"
  shows
   "((tf \<notin> {''minute'', ''hour'', ''day'', ''week'', ''month''} \<or> cur \<notin> {''usd'', ''token''}
       \<or> lim > 1000) \<longrightarrow>
        fst (getPoolOhlcv this srv now rnd network poolAddress opts) = []
      \<and> (\<exists>msg. snd (getPoolOhlcv this srv now rnd network poolAddress opts)
                  = Inl (NewError \<lparr>message = msg, status = None, data = None\<rparr>)))
    \<and> (\<not> js_truthy network \<longrightarrow>
         snd (getPoolOhlcv this srv now rnd network poolAddress opts)
           = Inl (plain_error ''Network parameter is required''))
    \<and> (js_truthy network \<and> \<not> js_truthy poolAddress \<longrightarrow>
         snd (getPoolOhlcv this srv now rnd network poolAddress opts)
           = Inl (plain_error ''Pool address parameter is required''))
    \<and> (js_truthy network \<and> js_truthy poolAddress \<longrightarrow>
         (tf \<notin> {''minute'', ''hour'', ''day'', ''week'', ''month''} \<longrightarrow>
            snd (getPoolOhlcv this srv now rnd network poolAddress opts)
              = Inl (plain_error (''Invalid timeframe: '' @ tf
                       @ ''. Must be one of: minute, hour, day, week, month'')))
       \<and> (tf \<in> {''minute'', ''hour'', ''day'', ''week'', ''month''} \<and> cur \<notin> {''usd'', ''token''} \<longrightarrow>
            snd (getPoolOhlcv this srv now rnd network poolAddress opts)
              = Inl (plain_error (''Invalid currency: '' @ cur @ ''. Must be one of: usd, token'')))
       \<and> (tf \<in> {''minute'', ''hour'', ''day'', ''week'', ''month''} \<and> cur \<in> {''usd'', ''token''}
            \<and> lim > 1000 \<longrightarrow>
            snd (getPoolOhlcv this srv now rnd network poolAddress opts)
              = Inl (plain_error ''Maximum limit is 1000''))
       \<and> (tf \<in> {''minute'', ''hour'', ''day'', ''week'', ''month''} \<and> cur \<in> {''usd'', ''token''}
            \<and> lim \<le> 1000 \<longrightarrow>
            fst (getPoolOhlcv this srv now rnd network poolAddress opts)
              = [\<lparr>url = baseURL (axios this) @ ''/networks/'' @ js_to_string network
                         @ ''/pools/'' @ js_to_string poolAddress,
                  req_headers = axios_headers (axios this), params = []\<rparr>]))"
proof -
  have pre: "ohlcv_preflight network poolAddress opts =
     (if \<not> js_truthy network then Some (plain_error ''Network parameter is required'')
      else if \<not> js_truthy poolAddress
      then Some (plain_error ''Pool address parameter is required'')
      else if tf \<notin> {''minute'', ''hour'', ''day'', ''week'', ''month''}
           then Some (plain_error (''Invalid timeframe: '' @ tf
                        @ ''. Must be one of: minute, hour, day, week, month''))
           else if cur \<notin> {''usd'', ''token''}
           then Some (plain_error (''Invalid currency: '' @ cur
                        @ ''. Must be one of: usd, token''))
           else if lim > 1000 then Some (plain_error ''Maximum limit is 1000'')
           else None)"
    using assms
    by (simp add: ohlcv_preflight_def Let_def validTimeframes_def validCurrencies_def)
  have rej: "getPoolOhlcv this srv now rnd network poolAddress opts = ([], Inl e)"
    if "ohlcv_preflight network poolAddress opts = Some e" for e
    using that by (simp add: getPoolOhlcv_def)
  have acc: "fst (getPoolOhlcv this srv now rnd network poolAddress opts)
               = fst (getPool this srv network poolAddress no_options)"
    if "ohlcv_preflight network poolAddress opts = None"
    using that by (simp add: getPoolOhlcv_requests)
  show ?thesis
    apply (intro conjI impI)
    subgoal using rej pre by (auto simp: plain_error_def split: if_splits)
    subgoal using rej pre by (auto simp: plain_error_def split: if_splits)
    subgoal using rej [of "plain_error ''Network parameter is required''"] pre by simp
    subgoal using rej [of "plain_error ''Pool address parameter is required''"] pre by simp
    subgoal using rej [of "plain_error (''Invalid timeframe: '' @ tf
                       @ ''. Must be one of: minute, hour, day, week, month'')"] pre by simp
    subgoal using rej [of "plain_error (''Invalid currency: '' @ cur @ ''. Must be one of: usd, token'')"] pre by simp
    subgoal using rej [of "plain_error ''Maximum limit is 1000''"] pre by simp
    subgoal using acc pre
      by (simp add: getPool_requests build_request_def buildIncludeParams_def js_default_def
            no_options_def)
    done
qed

text \<open>
  The theorem at an invalid timeframe, an invalid currency, a limit of 1001, and a valid
  call with timeframe \<open>hour\<close> and limit 1000.
\<close>

theorem getPoolOhlcv_validation_witness:
  "getPoolOhlcv example_client (simulated_server [] (ok (JObj []))) 1700000000 (\<lambda>i s. [])
     (JStr ''eth'') (JStr ''0xA'') (no_options\<lparr>timeframe := Some ''year''\<rparr>)
     = ([], Inl (plain_error
          ''Invalid timeframe: year. Must be one of: minute, hour, day, week, month''))
   \<and> getPoolOhlcv example_client (simulated_server [] (ok (JObj []))) 1700000000 (\<lambda>i s. [])
     (JStr ''eth'') (JStr ''0xA'') (no_options\<lparr>currency := Some ''eur''\<rparr>)
     = ([], Inl (plain_error ''Invalid currency: eur. Must be one of: usd, token''))
   \<and> getPoolOhlcv example_client (simulated_server [] (ok (JObj []))) 1700000000 (\<lambda>i s. [])
     (JStr ''eth'') (JStr ''0xA'') (no_options\<lparr>limit := Some 1001\<rparr>)
     = ([], Inl (plain_error ''Maximum limit is 1000''))
   \<and> fst (getPoolOhlcv example_client (simulated_server [] (ok (JObj []))) 1700000000 (\<lambda>i s. [])
     (JStr ''eth'') (JStr ''0xA'') (no_options\<lparr>timeframe := Some ''hour'', limit := Some 1000\<rparr>))
     = [\<lparr>url = ''https://api.geckoterminal.com/api/v2/networks/eth/pools/0xA'',
         req_headers = [(''Accept'', ''application/json''),
                        (''User-Agent'', ''GeckoTerminal-Node/1.0.0'')],
         params = []\<rparr>]"
  using getPoolOhlcv_validation
          [of "no_options\<lparr>timeframe := Some ''year''\<rparr>" "''year''" "''usd''" 100
              example_client "simulated_server [] (ok (JObj []))" 1700000000 "\<lambda>i s. []"
              "JStr ''eth''" "JStr ''0xA''"]
        getPoolOhlcv_validation
          [of "no_options\<lparr>currency := Some ''eur''\<rparr>" "''day''" "''eur''" 100
              example_client "simulated_server [] (ok (JObj []))" 1700000000 "\<lambda>i s. []"
              "JStr ''eth''" "JStr ''0xA''"]
        getPoolOhlcv_validation
          [of "no_options\<lparr>limit := Some 1001\<rparr>" "''day''" "''usd''" 1001
              example_client "simulated_server [] (ok (JObj []))" 1700000000 "\<lambda>i s. []"
              "JStr ''eth''" "JStr ''0xA''"]
        getPoolOhlcv_validation
          [of "no_options\<lparr>timeframe := Some ''hour'', limit := Some 1000\<rparr>" "''hour''" "''usd''" 1000
              example_client "simulated_server [] (ok (JObj []))" 1700000000 "\<lambda>i s. []"
              "JStr ''eth''" "JStr ''0xA''"]
  by (simp add: getPoolOhlcv_def ohlcv_preflight_def getPool_def validTimeframes_def
        validCurrencies_def eval_defs)

text \<open>
  Claim C7 as stated fails when the network is missing: with the invalid timeframe
  \<open>year\<close> and an empty network the message is the one about the network and names neither
  the invalid value nor the allowed set.
\<close>

theorem getPoolOhlcv_missing_network_counterexample:
  "invoke example_client (example_world (simulated_server [] (ok (JObj []))))
     (GetPoolOhlcv (JStr []) (JStr ''0xA'') (no_options\<lparr>timeframe := Some ''year''\<rparr>))
     = ([], Inl (plain_error ''Network parameter is required''))
   \<and> invoke example_client (example_world (simulated_server [] (ok (JObj []))))
     (GetPoolOhlcv (JStr []) (JStr ''0xA'') (no_options\<lparr>timeframe := Some ''year''\<rparr>))
     \<noteq> ([], Inl (plain_error
          ''Invalid timeframe: year. Must be one of: minute, hour, day, week, month''))"
  by (simp add: getPoolOhlcv_def ohlcv_preflight_def example_world_def eval_defs)

text \<open>
  Claim C1 does not hold of the TypeScript source. On a valid call its \<open>getPoolOhlcv\<close>
  issues one request, to the pool endpoint and without any of the OHLCV parameters, and
  returns data points it builds from the clock and the random source; the compiled build of
  the same method sends the parameters to the \<open>/ohlcv\<close> endpoint and returns the response
  body.
\<close>

theorem getPoolOhlcv_fabricates:
  "getPoolOhlcv example_client
     (simulated_server []
        (ok (JObj [(''data'', JObj [(''attributes'',
               JObj [(''base_token_price_usd'', JStr ''1.5'')])])])))
     now rnd (JStr ''eth'') (JStr ''0xcbcdf9626bc03e24f779434178a73a0b4bad62ed'')
     (no_options\<lparr>limit := Some 2\<rparr>)
   = ([\<lparr>url = ''https://api.geckoterminal.com/api/v2/networks/eth/pools/0xcbcdf9626bc03e24f779434178a73a0b4bad62ed'',
        req_headers = [(''Accept'', ''application/json''),
                       (''User-Agent'', ''GeckoTerminal-Node/1.0.0'')],
        params = []\<rparr>],
      Inr (JObj [(''data'', JArr
        [JObj ((''timestamp'', JNum now) # rnd 0 ''1.5''),
         JObj ((''timestamp'', JNum (now - 86400)) # rnd 1 ''1.5'')])]))
   \<and> getPoolOhlcv_dist example_client
     (simulated_server []
        (ok (JObj [(''data'', JObj [(''attributes'',
               JObj [(''base_token_price_usd'', JStr ''1.5'')])])])))
     (JStr ''eth'') (JStr ''0xcbcdf9626bc03e24f779434178a73a0b4bad62ed'')
     (no_options\<lparr>limit := Some 2\<rparr>)
   = ([\<lparr>url = ''https://api.geckoterminal.com/api/v2/networks/eth/pools/0xcbcdf9626bc03e24f779434178a73a0b4bad62ed/ohlcv'',
        req_headers = [(''Accept'', ''application/json''),
                       (''User-Agent'', ''GeckoTerminal-Node/1.0.0'')],
        params = [(''timeframe'', JStr ''day''), (''aggregate'', JNum 1), (''limit'', JNum 2),
                  (''currency'', JStr ''usd''), (''token'', JStr ''base'')]\<rparr>],
      Inr (JObj [(''data'', JObj [(''attributes'',
               JObj [(''base_token_price_usd'', JStr ''1.5'')])])]))"
  by (simp add: getPoolOhlcv_def getPoolOhlcv_dist_def ohlcv_preflight_def getPool_def
        mock_point_def validTimeframes_def validCurrencies_def timeframeInSeconds_def
        eval_defs upt_rec [of 0] upt_rec [of 1] upt_rec [of 2] numeral_2_eq_2)

end
